theory Spec2Isabelle
  imports Main
begin

section \<open>Data model of the serial connection manager\<close>

text \<open>
  The embedding follows \<^verbatim>\<open>serial-connection-manager.ts\<close> (class
  \<^verbatim>\<open>SerialConnectionManager\<close> and, after it in the same file,
  \<^verbatim>\<open>PlotterFrontendContribution\<close>) and the core service (\<^verbatim>\<open>CoreServiceImpl\<close>).
  Every method is an \<^verbatim>\<open>async\<close> function; the model runs each call to completion
  before the next one starts, so the interleaving of two pending calls is outside the model.
\<close>

text \<open>
  An object of the TypeScript code has an identity, and \<^verbatim>\<open>!==\<close> on two objects
  compares the identities, not the contents: \<open>Object i x\<close> is the object with identity
  \<open>i\<close> and contents \<open>x\<close>. \<open>strictNotEqual\<close> is \<^verbatim>\<open>!==\<close> on two values
  that are objects or \<^verbatim>\<open>undefined\<close>.
\<close>

datatype 'a Object = Object (identity: nat) (contents: 'a)

fun strictNotEqual :: "'a Object option \<Rightarrow> 'a Object option \<Rightarrow> bool" where
  "strictNotEqual None None = False"
| "strictNotEqual (Some a) (Some b) = (identity a \<noteq> identity b)"
| "strictNotEqual a b = True"

text \<open>
  Modelled from the spec: \<^verbatim>\<open>Board\<close> and \<^verbatim>\<open>Port\<close> are declared in
  \<^verbatim>\<open>common/protocol/boards-service\<close>, which is not among the sources. The spec
  speaks of a board identifier and a port address; the manager reads the address of the port
  (\<^verbatim>\<open>this.config.port?.address\<close>) and nothing else of either.
\<close>

record Board =
  name :: string

record Port =
  address :: string
  protocol :: string

text \<open>
  \<^verbatim>\<open>Partial<SerialConfig>\<close>: each of the three keys may be \<^verbatim>\<open>undefined\<close>
  (\<open>None\<close>); a key that is absent from an object reads as \<^verbatim>\<open>undefined\<close> too.
\<close>

record SerialConfig =
  board :: "Board Object option"
  port :: "Port Object option"
  baudRate :: "nat option"

text \<open>\<^verbatim>\<open>port?.address\<close>: the address of the port, if there is a port.\<close>

definition portAddress :: "Port Object option \<Rightarrow> string option" where
  "portAddress p = map_option (\<lambda>x. address (contents x)) p"

text \<open>
  Modelled from the spec: \<^verbatim>\<open>Status\<close> and \<^verbatim>\<open>Status.isOK\<close> are declared in
  \<^verbatim>\<open>common/protocol/serial-service\<close>, which is not among the sources. The spec has
  the statuses Connected (\<open>OK\<close>), AlreadyConnected and NotConnected, and calls the result of
  \<^verbatim>\<open>Status.isOK\<close> a boolean coercion of a status. A backend may answer with any other
  error status (\<open>ErrorStatus\<close> with its message). \<^verbatim>\<open>connect()\<close> returns the boolean
  \<^verbatim>\<open>Status.isOK(connectStatus)\<close> where a status is expected: \<open>Coerced\<close> is such a
  boolean flowing through a variable of type \<^verbatim>\<open>Status\<close>.
\<close>

datatype Status = OK | NOT_CONNECTED | ALREADY_CONNECTED | ErrorStatus string | Coerced bool

fun isOK :: "Status \<Rightarrow> bool" where
  "isOK OK = True"
| "isOK (Coerced b) = b"
| "isOK NOT_CONNECTED = False"
| "isOK ALREADY_CONNECTED = False"
| "isOK (ErrorStatus m) = False"

text \<open>
  \<^verbatim>\<open>SerialError.ErrorCodes\<close>: the code is a number or \<^verbatim>\<open>undefined\<close>; the
  \<^verbatim>\<open>switch\<close> of \<^verbatim>\<open>handleError\<close> names three codes and \<^verbatim>\<open>undefined\<close>
  and has no default branch, so any other number (\<open>OtherCode\<close>) falls through.
\<close>

datatype ErrorCode = CLIENT_CANCEL | DEVICE_BUSY | DEVICE_NOT_CONFIGURED | OtherCode nat

record SerialError =
  code :: "ErrorCode option"
  errorConfig :: SerialConfig

datatype SerialType = Monitor | Plotter

datatype Severity = Error | Warn | Info

text \<open>
  What the manager does to its collaborators, in order: the calls that reach the backend
  serial service, the messages shown to the user (with the localisation key or the literal
  text; the board and port names formatted into them are left out), and the WebSocket and
  window operations.
\<close>

datatype Event =
    BackendConnect SerialConfig
  | BackendDisconnect
  | UpdateWsConfigParam "nat option" "string option"
  | Notify Severity string
  | SocketOpened nat
  | SocketClosed nat
  | WindowFocused nat
  | WindowOpened nat bool

text \<open>
  The collaborators the manager is built with. \<open>'b\<close> is the state of the backend
  serial service; the manager only sees it through \<^verbatim>\<open>isSerialPortOpen()\<close>,
  \<^verbatim>\<open>connect(config)\<close> and \<^verbatim>\<open>disconnect()\<close>. \<open>newWebSocket p\<close> is
  \<open>False\<close> when \<^verbatim>\<open>new WebSocket(`ws://localhost:${p}`)\<close> throws.
\<close>

record 'b Services =
  isSerialPortOpen :: "'b \<Rightarrow> bool"
  serviceConnect :: "SerialConfig \<Rightarrow> 'b \<Rightarrow> Status \<times> 'b"
  serviceDisconnect :: "'b \<Rightarrow> Status \<times> 'b"
  newWebSocket :: "nat \<Rightarrow> bool"

text \<open>
  The fields of the manager (\<open>state\<close> is \<^verbatim>\<open>_state\<close>; \<open>webSocket\<close> holds the
  port of the socket's URL), followed by what it acts on: the backend, the flag that
  \<^verbatim>\<open>core.isUploading()\<close> resolves to, the pending timers of \<^verbatim>\<open>window\<close>
  as pairs of handle and delay in milliseconds, the next timer handle, and the trace of events.
\<close>

record 'b World =
  state :: "SerialType list"
  config :: SerialConfig
  serialErrors :: "SerialError list"
  reconnectTimeout :: "nat option"
  wsPort :: "nat option"
  webSocket :: "nat option"
  backend :: 'b
  isUploading :: bool
  timers :: "(nat \<times> nat) list"
  nextTimer :: nat
  trace :: "Event list"

definition emit :: "Event \<Rightarrow> 'b World \<Rightarrow> 'b World" where
  "emit ev w = w\<lparr>trace := trace w @ [ev]\<rparr>"

section \<open>The serial connection manager\<close>

text \<open>\<^verbatim>\<open>widgetsAttached(state)\<close>: the array is not empty.\<close>

definition widgetsAttached :: "SerialType list \<Rightarrow> bool" where
  "widgetsAttached st = (length st > 0)"

text \<open>
  \<^verbatim>\<open>isSerialConfig\<close>: \<^verbatim>\<open>!!config.board && !!config.baudRate && !!config.port\<close>.
  An object is truthy, \<^verbatim>\<open>undefined\<close> and the number 0 are falsy.
\<close>

definition truthy :: "nat option \<Rightarrow> bool" where
  "truthy n = (case n of None \<Rightarrow> False | Some k \<Rightarrow> k \<noteq> 0)"

definition isSerialConfig :: "SerialConfig \<Rightarrow> bool" where
  "isSerialConfig c = (board c \<noteq> None \<and> truthy (baudRate c) \<and> port c \<noteq> None)"

text \<open>
  The loop of \<^verbatim>\<open>setConfig\<close> over \<^verbatim>\<open>Object.keys(this.config)\<close>: the three keys
  of the initial object, in their order. Each step compares the new value of the key with the
  stored one by \<^verbatim>\<open>!==\<close> and overwrites the stored one when they differ: board and
  port are objects and differ when they are not the same object, the baud rate is a number and
  differs when its value does.
\<close>

datatype ConfigKey = KBoard | KPort | KBaudRate

fun mergeKey :: "SerialConfig \<Rightarrow> bool \<times> SerialConfig \<Rightarrow> ConfigKey \<Rightarrow> bool \<times> SerialConfig" where
  "mergeKey newConfig (changed, c) KBoard =
     (if strictNotEqual (board newConfig) (board c) then (True, c\<lparr>board := board newConfig\<rparr>)
      else (changed, c))"
| "mergeKey newConfig (changed, c) KPort =
     (if strictNotEqual (port newConfig) (port c) then (True, c\<lparr>port := port newConfig\<rparr>)
      else (changed, c))"
| "mergeKey newConfig (changed, c) KBaudRate =
     (if baudRate newConfig \<noteq> baudRate c then (True, c\<lparr>baudRate := baudRate newConfig\<rparr>)
      else (changed, c))"

definition mergeConfig :: "SerialConfig \<Rightarrow> SerialConfig \<Rightarrow> bool \<times> SerialConfig" where
  "mergeConfig newConfig c = foldl (mergeKey newConfig) (False, c) [KBoard, KPort, KBaudRate]"

definition connect :: "'b Services \<Rightarrow> 'b World \<Rightarrow> Status \<times> 'b World" where
  "connect E w =
     (if isSerialPortOpen E (backend w) then (ALREADY_CONNECTED, w)
      else if \<not> isSerialConfig (config w) then (NOT_CONNECTED, w)
      else
        (let (connectStatus, b) = serviceConnect E (config w) (backend w)
         in (Coerced (isOK connectStatus), emit (BackendConnect (config w)) (w\<lparr>backend := b\<rparr>))))"

definition disconnect :: "'b Services \<Rightarrow> 'b World \<Rightarrow> Status \<times> 'b World" where
  "disconnect E w =
     (if \<not> isSerialPortOpen E (backend w) then (OK, w)
      else
        (let (status, b) = serviceDisconnect E (backend w);
             w1 = emit BackendDisconnect (w\<lparr>backend := b\<rparr>)
         in (status, if isOK status then w1\<lparr>wsPort := None\<rparr> else w1)))"

definition setConfig :: "'b Services \<Rightarrow> SerialConfig \<Rightarrow> 'b World \<Rightarrow> 'b World" where
  "setConfig E newConfig w =
     (let (configHasChanged, c) = mergeConfig newConfig (config w);
          w1 = w\<lparr>config := c\<rparr>
      in if configHasChanged \<and> widgetsAttached (state w1) \<and> \<not> isUploading w1
         then
           (let w2 = emit (UpdateWsConfigParam (baudRate c) (portAddress (port c))) w1;
                w3 = snd (disconnect E w2)
            in snd (connect E w3))
         else w1)"

definition handleWebSocketChanged :: "nat \<Rightarrow> 'b World \<Rightarrow> 'b World" where
  "handleWebSocketChanged p w = w\<lparr>wsPort := Some p\<rparr>"

definition createWsConnection :: "'b Services \<Rightarrow> 'b World \<Rightarrow> bool \<times> 'b World" where
  "createWsConnection E w =
     (case wsPort w of
        None \<Rightarrow> (False, w)
      | Some p \<Rightarrow>
          if p = 0 then (False, w)
          else if newWebSocket E p then (True, emit (SocketOpened p) (w\<lparr>webSocket := Some p\<rparr>))
          else (False, w))"

definition setState :: "'b Services \<Rightarrow> SerialType list \<Rightarrow> 'b World \<Rightarrow> Status \<times> 'b World" where
  "setState E newState w =
     (let oldState = state w
      in if widgetsAttached oldState \<and> \<not> widgetsAttached newState
         then (let (status, w1) = disconnect E w in (status, w1\<lparr>state := newState\<rparr>))
         else if \<not> widgetsAttached oldState \<and> widgetsAttached newState
         then
           (if isUploading w
            then (NOT_CONNECTED, emit (Notify Error ''Cannot open serial port when uploading'') w)
            else (let (status, w1) = connect E w in (status, w1\<lparr>state := newState\<rparr>)))
         else (OK, w\<lparr>state := newState\<rparr>))"

definition openSerial :: "'b Services \<Rightarrow> SerialType \<Rightarrow> 'b World \<Rightarrow> Status \<times> 'b World" where
  "openSerial E type w =
     (if \<not> isSerialConfig (config w)
      then (NOT_CONNECTED,
            emit (Notify Error ''Please select a board and a port to open the serial connection.'') w)
      else if type \<in> set (state w) then (OK, w)
      else
        (let (status, w1) = setState E (state w @ [type]) w
         in if isOK status \<and> type = Monitor then (status, snd (createWsConnection E w1))
            else (status, w1)))"

text \<open>
  \<^verbatim>\<open>closeSerial\<close>: \<^verbatim>\<open>splice(index, 1)\<close> at the index of the first occurrence
  is \<open>remove1\<close>.
\<close>

definition closeSerial :: "'b Services \<Rightarrow> SerialType \<Rightarrow> 'b World \<Rightarrow> Status \<times> 'b World" where
  "closeSerial E type w =
     (if type \<in> set (state w)
      then
        (let (status, w1) = setState E (remove1 type (state w)) w
         in case webSocket w1 of
              Some p \<Rightarrow>
                if isOK status \<and> type = Monitor
                then (status, emit (SocketClosed p) (w1\<lparr>webSocket := None\<rparr>))
                else (status, w1)
            | None \<Rightarrow> (status, w1))
      else (OK, w))"

text \<open>The \<^verbatim>\<open>switch\<close> of \<^verbatim>\<open>handleError\<close> on the error code.\<close>

definition classify :: "SerialError \<Rightarrow> 'b World \<Rightarrow> 'b World" where
  "classify error w =
     (case code error of
        Some CLIENT_CANCEL \<Rightarrow> w
      | Some DEVICE_BUSY \<Rightarrow>
          (emit (Notify Warn ''arduino/serial/connectionBusy'') w)
            \<lparr>serialErrors := serialErrors w @ [error]\<rparr>
      | Some DEVICE_NOT_CONFIGURED \<Rightarrow> emit (Notify Info ''arduino/serial/disconnected'') w
      | Some (OtherCode n) \<Rightarrow> w
      | None \<Rightarrow> emit (Notify Error ''arduino/serial/unexpectedError'') w)"

text \<open>\<^verbatim>\<open>window.clearTimeout\<close> and \<^verbatim>\<open>window.setTimeout\<close> on the pending timers.\<close>

definition clearTimeout :: "nat \<Rightarrow> (nat \<times> nat) list \<Rightarrow> (nat \<times> nat) list" where
  "clearTimeout h ts = filter (\<lambda>t. fst t \<noteq> h) ts"

definition handleError :: "'b Services \<Rightarrow> SerialError \<Rightarrow> 'b World \<Rightarrow> 'b World" where
  "handleError E error w =
     (if \<not> isSerialPortOpen E (backend w) then w
      else
        (let w1 = classify error w
         in if widgetsAttached (state w1)
            then
              (if length (serialErrors w1) \<ge> 10
               then (emit (Notify Warn ''arduino/serial/failedReconnect'') w1)\<lparr>serialErrors := []\<rparr>
               else
                 (let attempts = (if length (serialErrors w1) = 0 then 1 else length (serialErrors w1));
                      pending = (case reconnectTimeout w1 of
                                   Some h \<Rightarrow> clearTimeout h (timers w1)
                                 | None \<Rightarrow> timers w1);
                      timeout = attempts * 1000;
                      w2 = emit (Notify Warn ''arduino/serial/reconnect'') w1
                  in w2\<lparr>reconnectTimeout := Some (nextTimer w2),
                        timers := pending @ [(nextTimer w2, timeout)],
                        nextTimer := Suc (nextTimer w2)\<rparr>))
            else w1))"

text \<open>
  The callback of the reconnect timer, \<^verbatim>\<open>() => this.connect()\<close>, run when the pending
  timer \<open>h\<close> expires; a handle that is not pending does nothing.
\<close>

definition fireTimer :: "'b Services \<Rightarrow> nat \<Rightarrow> 'b World \<Rightarrow> 'b World" where
  "fireTimer E h w =
     (if h \<in> fst ` set (timers w)
      then snd (connect E (w\<lparr>timers := clearTimeout h (timers w)\<rparr>))
      else w)"

text \<open>
  \<^verbatim>\<open>handleBoardConfigChange\<close>: the selected board and port of the boards configuration
  and the baud rate of the serial model make the new configuration.
\<close>

definition handleBoardConfigChange ::
  "'b Services \<Rightarrow> Board Object option \<Rightarrow> Port Object option \<Rightarrow> nat option \<Rightarrow> 'b World
     \<Rightarrow> 'b World" where
  "handleBoardConfigChange E selectedBoard selectedPort modelBaudRate w =
     setConfig E \<lparr>board = selectedBoard, port = selectedPort, baudRate = modelBaudRate\<rparr> w"

text \<open>
  The calls of a trace that reach the backend serial service, and the updates of the shared
  configuration of the relay channel (\<^verbatim>\<open>updateWsConfigParam\<close>).
\<close>

fun isBackendCall :: "Event \<Rightarrow> bool" where
  "isBackendCall (BackendConnect c) = True"
| "isBackendCall BackendDisconnect = True"
| "isBackendCall ev = False"

definition backendCalls :: "Event list \<Rightarrow> Event list" where
  "backendCalls tr = filter isBackendCall tr"

fun isWsConfigUpdate :: "Event \<Rightarrow> bool" where
  "isWsConfigUpdate (UpdateWsConfigParam b a) = True"
| "isWsConfigUpdate ev = False"

definition wsConfigUpdates :: "Event list \<Rightarrow> Event list" where
  "wsConfigUpdates tr = filter isWsConfigUpdate tr"

section \<open>The plotter window\<close>

text \<open>
  \<^verbatim>\<open>PlotterFrontendContribution\<close>: its \<open>window\<close> field is the handle of the open
  plotter window or \<^verbatim>\<open>null\<close>. \<open>popup\<close> is what \<^verbatim>\<open>window.open\<close> returns
  (\<open>None\<close> for \<^verbatim>\<open>null\<close>). Of the URL parameters of the new window, the relay port and
  the connected flag come from the manager and are recorded; the others are read from the
  serial model, the theme and the boards configuration.
\<close>

record PlotterFrontendContribution =
  window :: "nat option"

definition openWindow ::
  "'b Services \<Rightarrow> nat option \<Rightarrow> nat \<Rightarrow> PlotterFrontendContribution \<times> 'b World
     \<Rightarrow> PlotterFrontendContribution \<times> 'b World" where
  "openWindow E popup p pw =
     (case pw of (pc, w) \<Rightarrow>
        (pc\<lparr>window := popup\<rparr>, emit (WindowOpened p (isSerialPortOpen E (backend w))) w))"

text \<open>
  In the failing branch \<^verbatim>\<open>closeSerial\<close> is started without \<^verbatim>\<open>await\<close>: it
  suspends at its first backend call, the error message is shown, and then it runs on.
\<close>

definition plotterConnect ::
  "'b Services \<Rightarrow> nat option \<Rightarrow> PlotterFrontendContribution \<times> 'b World
     \<Rightarrow> PlotterFrontendContribution \<times> 'b World" where
  "plotterConnect E popup pw =
     (case pw of (pc, w) \<Rightarrow>
        (case window pc of
           Some h \<Rightarrow> (pc, emit (WindowFocused h) w)
         | None \<Rightarrow>
             (let (status, w1) = openSerial E Plotter w;
                  failed = (pc, snd (closeSerial E Plotter
                                       (emit (Notify Error ''Couldn't open serial plotter'') w1)))
              in case wsPort w1 of
                   Some p \<Rightarrow> if isOK status \<and> p \<noteq> 0 then openWindow E popup p (pc, w1) else failed
                 | None \<Rightarrow> failed)))"

text \<open>The handler of \<^verbatim>\<open>CLOSE_CHILD_WINDOW\<close>.\<close>

definition onCloseChildWindow ::
  "'b Services \<Rightarrow> PlotterFrontendContribution \<times> 'b World
     \<Rightarrow> PlotterFrontendContribution \<times> 'b World" where
  "onCloseChildWindow E pw =
     (case pw of (pc, w) \<Rightarrow>
        (case window pc of
           Some h \<Rightarrow> (pc\<lparr>window := None\<rparr>, snd (closeSerial E Plotter w))
         | None \<Rightarrow> (pc, w)))"

text \<open>The windows a trace opened.\<close>

fun isWindowOpened :: "Event \<Rightarrow> bool" where
  "isWindowOpened (WindowOpened p c) = True"
| "isWindowOpened ev = False"

section \<open>The core service: compile, upload, burn bootloader\<close>

text \<open>
  \<^verbatim>\<open>CoreServiceImpl\<close> holds the flag \<open>uploading\<close> and sets
  \<^verbatim>\<open>serialService.uploadInProgress\<close>. Every \<^verbatim>\<open>await\<close> of a collaborator either
  resolves or rejects; \<open>CoreEnv\<close> says which, with the details of the error. The core
  client is awaited once in \<^verbatim>\<open>compile\<close> and once more in \<^verbatim>\<open>doUpload\<close>:
  \<open>initialized env k\<close> and \<open>coreClient env k\<close> are the outcomes of the awaits numbered
  \<open>k\<close> within one call, counted from 0. A response stream delivers its chunks (standard
  output and standard error) and then ends or fails.
\<close>

record ResponseStream =
  chunks :: "(string \<times> string) list"
  failure :: "string option"

record CoreEnv =
  initialized :: "nat \<Rightarrow> string option"
  coreClient :: "nat \<Rightarrow> string option"
  serialDisconnect :: "string option"
  compileStream :: ResponseStream
  uploadStream :: ResponseStream
  burnBootloaderStream :: ResponseStream

text \<open>
  What \<^verbatim>\<open>responseService.appendToOutput\<close> receives: a chunk of a stream, the line
  that reports completion of a task, or the error line of a task with the details.
\<close>

datatype OutputChunk = Chunk string | Complete string | Failed string string

record Core =
  uploading :: bool
  uploadInProgress :: bool
  responseOutput :: "OutputChunk list"
  serialDisconnects :: nat

definition appendToOutput :: "OutputChunk \<Rightarrow> Core \<Rightarrow> Core" where
  "appendToOutput ch c = c\<lparr>responseOutput := responseOutput c @ [ch]\<rparr>"

text \<open>The \<^verbatim>\<open>data\<close> handler: both strings of every response go to the output.\<close>

fun onData :: "(string \<times> string) list \<Rightarrow> Core \<Rightarrow> Core" where
  "onData [] c = c"
| "onData ((out, err) # rest) c = onData rest (appendToOutput (Chunk err) (appendToOutput (Chunk out) c))"

text \<open>
  \<^verbatim>\<open>await this.coreClientProvider.initialized; await this.coreClient()\<close>, for the
  \<open>k\<close>-th time within a call: \<open>Some e\<close> when one of them rejects with \<open>e\<close>.
\<close>

definition awaitClient :: "CoreEnv \<Rightarrow> nat \<Rightarrow> string option" where
  "awaitClient env k = (case initialized env k of Some e \<Rightarrow> Some e | None \<Rightarrow> coreClient env k)"

text \<open>A thrown error is \<open>Inl\<close> with its details, a resolved call is \<open>Inr ()\<close>.\<close>

definition compile :: "CoreEnv \<Rightarrow> Core \<Rightarrow> (string + unit) \<times> Core" where
  "compile env c =
     (case awaitClient env 0 of
        Some e \<Rightarrow> (Inl e, c)
      | None \<Rightarrow>
          (let c1 = onData (chunks (compileStream env)) c
           in case failure (compileStream env) of
                None \<Rightarrow> (Inr (), appendToOutput (Complete ''Compilation'') c1)
              | Some e \<Rightarrow> (Inl e, appendToOutput (Failed ''Compilation'' e) c1)))"

text \<open>
  \<^verbatim>\<open>doUpload\<close>: the flags are set after the compilation and before the awaits that
  precede the \<^verbatim>\<open>try\<close>; the \<^verbatim>\<open>finally\<close> resets them. Its await of the
  core client is the second of the call, the first being the one of \<^verbatim>\<open>compile\<close>.
\<close>

definition doUpload :: "CoreEnv \<Rightarrow> string \<Rightarrow> Core \<Rightarrow> (string + unit) \<times> Core" where
  "doUpload env task c =
     (case compile env c of
        (Inl e, c1) \<Rightarrow> (Inl e, c1)
      | (Inr u, c1) \<Rightarrow>
          (let c2 = c1\<lparr>uploading := True, uploadInProgress := True\<rparr>;
               c3 = c2\<lparr>serialDisconnects := Suc (serialDisconnects c2)\<rparr>
           in case serialDisconnect env of
                Some e \<Rightarrow> (Inl e, c3)
              | None \<Rightarrow>
                  (case awaitClient env 1 of
                     Some e \<Rightarrow> (Inl e, c3)
                   | None \<Rightarrow>
                       (let c4 = onData (chunks (uploadStream env)) c3;
                            (r, c5) =
                              (case failure (uploadStream env) of
                                 None \<Rightarrow> (Inr (), appendToOutput (Complete task) c4)
                               | Some e \<Rightarrow> (Inl e, appendToOutput (Failed task e) c4))
                        in (r, c5\<lparr>uploading := False, uploadInProgress := False\<rparr>)))))"

definition upload :: "CoreEnv \<Rightarrow> Core \<Rightarrow> (string + unit) \<times> Core" where
  "upload env c = doUpload env ''upload'' c"

definition uploadUsingProgrammer :: "CoreEnv \<Rightarrow> Core \<Rightarrow> (string + unit) \<times> Core" where
  "uploadUsingProgrammer env c = doUpload env ''upload using programmer'' c"

text \<open>
  \<^verbatim>\<open>burnBootloader\<close> sets the flags first; it writes no completion line.
\<close>

definition burnBootloader :: "CoreEnv \<Rightarrow> Core \<Rightarrow> (string + unit) \<times> Core" where
  "burnBootloader env c =
     (let c2 = c\<lparr>uploading := True, uploadInProgress := True\<rparr>;
          c3 = c2\<lparr>serialDisconnects := Suc (serialDisconnects c2)\<rparr>
      in case serialDisconnect env of
           Some e \<Rightarrow> (Inl e, c3)
         | None \<Rightarrow>
             (case awaitClient env 0 of
                Some e \<Rightarrow> (Inl e, c3)
              | None \<Rightarrow>
                  (let c4 = onData (chunks (burnBootloaderStream env)) c3;
                       (r, c5) =
                         (case failure (burnBootloaderStream env) of
                            None \<Rightarrow> (Inr (), c4)
                          | Some e \<Rightarrow> (Inl e, appendToOutput (Failed ''burning the bootloader'' e) c4))
                   in (r, c5\<lparr>uploading := False, uploadInProgress := False\<rparr>))))"

text \<open>\<^verbatim>\<open>isUploading()\<close> resolves to the flag.\<close>

definition coreIsUploading :: "Core \<Rightarrow> bool" where
  "coreIsUploading c = uploading c"

section \<open>Test doubles and example states\<close>

text \<open>
  A backend whose state is the open flag of the port: \<open>obedientService\<close> opens on connect and
  closes on disconnect, always with status OK; \<open>stuckService\<close> answers a disconnect with an
  error status and keeps the port open; \<open>refusingService\<close> answers a connect with an error
  status and leaves the port closed.
\<close>

definition obedientConnect :: "SerialConfig \<Rightarrow> bool \<Rightarrow> Status \<times> bool" where
  "obedientConnect c b = (OK, True)"

definition obedientDisconnect :: "bool \<Rightarrow> Status \<times> bool" where
  "obedientDisconnect b = (OK, False)"

definition stuckDisconnect :: "bool \<Rightarrow> Status \<times> bool" where
  "stuckDisconnect b = (ErrorStatus ''Could not dispose'', b)"

definition portFlag :: "bool \<Rightarrow> bool" where
  "portFlag b = b"

definition socketAlways :: "nat \<Rightarrow> bool" where
  "socketAlways p = True"

definition obedientService :: "bool Services" where
  "obedientService =
     \<lparr>isSerialPortOpen = portFlag, serviceConnect = obedientConnect,
      serviceDisconnect = obedientDisconnect, newWebSocket = socketAlways\<rparr>"

definition refusingConnect :: "SerialConfig \<Rightarrow> bool \<Rightarrow> Status \<times> bool" where
  "refusingConnect c b = (ErrorStatus ''Serial port busy'', False)"

definition refusingService :: "bool Services" where
  "refusingService =
     \<lparr>isSerialPortOpen = portFlag, serviceConnect = refusingConnect,
      serviceDisconnect = obedientDisconnect, newWebSocket = socketAlways\<rparr>"

definition stuckService :: "bool Services" where
  "stuckService =
     \<lparr>isSerialPortOpen = portFlag, serviceConnect = obedientConnect,
      serviceDisconnect = stuckDisconnect, newWebSocket = socketAlways\<rparr>"

definition uno :: Board where
  "uno = \<lparr>name = ''Arduino Uno''\<rparr>"

definition ttyACM0 :: Port where
  "ttyACM0 = \<lparr>address = ''/dev/ttyACM0'', protocol = ''serial''\<rparr>"

text \<open>
  The board and port objects of the selection, and a second pair of objects with the same
  contents, as a boards configuration that has been built anew holds them.
\<close>

definition unoObject :: "Board Object" where
  "unoObject = Object 1 uno"

definition ttyObject :: "Port Object" where
  "ttyObject = Object 2 ttyACM0"

definition unoAgain :: "Board Object" where
  "unoAgain = Object 3 uno"

definition ttyAgain :: "Port Object" where
  "ttyAgain = Object 4 ttyACM0"

definition config9600 :: SerialConfig where
  "config9600 = \<lparr>board = Some unoObject, port = Some ttyObject, baudRate = Some 9600\<rparr>"

definition config115200 :: SerialConfig where
  "config115200 = \<lparr>board = Some unoObject, port = Some ttyObject, baudRate = Some 115200\<rparr>"

definition config9600Again :: SerialConfig where
  "config9600Again = \<lparr>board = Some unoAgain, port = Some ttyAgain, baudRate = Some 9600\<rparr>"

definition unplugged :: SerialConfig where
  "unplugged = \<lparr>board = Some unoObject, port = None, baudRate = Some 9600\<rparr>"

definition baudOnly :: SerialConfig where
  "baudOnly = \<lparr>board = None, port = None, baudRate = Some 115200\<rparr>"

definition busyError :: SerialError where
  "busyError = \<lparr>code = Some DEVICE_BUSY, errorConfig = config9600\<rparr>"

text \<open>
  The manager as constructed (empty state, empty configuration), and a running one: the
  monitor is attached, the port is open at 9600 baud, the relay endpoint 5000 is stored and
  the relay socket is connected to it.
\<close>

definition initialWorld :: "bool World" where
  "initialWorld =
     \<lparr>state = [], config = \<lparr>board = None, port = None, baudRate = None\<rparr>, serialErrors = [],
      reconnectTimeout = None, wsPort = None, webSocket = None, backend = False,
      isUploading = False, timers = [], nextTimer = 0, trace = []\<rparr>"

definition monitoring :: "bool World" where
  "monitoring =
     initialWorld\<lparr>state := [Monitor], config := config9600, wsPort := Some 5000,
                  webSocket := Some 5000, backend := True,
                  trace := [BackendConnect config9600, SocketOpened 5000]\<rparr>"

text \<open>
  A configured manager that nothing is attached to yet; the running manager during an upload;
  after one busy error; and after nine, with the ninth retry pending. A plotter contribution
  whose window is open.
\<close>

definition configured :: "bool World" where
  "configured = initialWorld\<lparr>config := config9600\<rparr>"

definition uploadingWorld :: "bool World" where
  "uploadingWorld = monitoring\<lparr>isUploading := True\<rparr>"

definition erred :: "bool World" where
  "erred = monitoring\<lparr>serialErrors := [busyError]\<rparr>"

definition nineErrors :: "bool World" where
  "nineErrors =
     monitoring\<lparr>serialErrors := replicate 9 busyError, reconnectTimeout := Some 8,
                timers := [(8, 9000)], nextTimer := 9\<rparr>"

definition plotting :: PlotterFrontendContribution where
  "plotting = \<lparr>window = Some 7\<rparr>"


text \<open>
  The core service at rest, an environment in which every call resolves, one in which
  \<^verbatim>\<open>serialService.disconnect()\<close> rejects, one in which
  \<^verbatim>\<open>this.coreClient()\<close> rejects every time, one in which it resolves the first time
  and rejects after that, and one whose upload stream fails.
\<close>

definition idleCore :: Core where
  "idleCore = \<lparr>uploading = False, uploadInProgress = False, responseOutput = [], serialDisconnects = 0\<rparr>"

definition quietStream :: ResponseStream where
  "quietStream = \<lparr>chunks = [], failure = None\<rparr>"

definition failingStream :: ResponseStream where
  "failingStream = \<lparr>chunks = [(''avrdude: '', ''not in sync'')], failure = Some ''exit status 1''\<rparr>"

definition resolves :: "nat \<Rightarrow> string option" where
  "resolves k = None"

definition rejects :: "nat \<Rightarrow> string option" where
  "rejects k = Some ''client unavailable''"

definition rejectsLater :: "nat \<Rightarrow> string option" where
  "rejectsLater k = (if k = 0 then None else Some ''client unavailable'')"

definition healthyEnv :: CoreEnv where
  "healthyEnv =
     \<lparr>initialized = resolves, coreClient = resolves, serialDisconnect = None,
      compileStream = quietStream, uploadStream = quietStream,
      burnBootloaderStream = quietStream\<rparr>"

definition noSerialEnv :: CoreEnv where
  "noSerialEnv = healthyEnv\<lparr>serialDisconnect := Some ''rpc closed''\<rparr>"

definition noClientEnv :: CoreEnv where
  "noClientEnv = healthyEnv\<lparr>coreClient := rejects\<rparr>"

definition lateClientEnv :: CoreEnv where
  "lateClientEnv = healthyEnv\<lparr>coreClient := rejectsLater\<rparr>"

definition failedUploadEnv :: CoreEnv where
  "failedUploadEnv = healthyEnv\<lparr>uploadStream := failingStream\<rparr>"

section \<open>Evaluation of the examples and general facts\<close>

lemmas double_defs =
  obedientService_def stuckService_def refusingService_def obedientConnect_def
  obedientDisconnect_def stuckDisconnect_def refusingConnect_def portFlag_def socketAlways_def

lemmas example_defs =
  initialWorld_def monitoring_def configured_def config9600_def config115200_def busyError_def
  uno_def ttyACM0_def uploadingWorld_def erred_def nineErrors_def plotting_def
  unoObject_def ttyObject_def unoAgain_def ttyAgain_def config9600Again_def unplugged_def
  baudOnly_def

lemmas core_defs =
  upload_def uploadUsingProgrammer_def doUpload_def burnBootloader_def compile_def
  awaitClient_def appendToOutput_def coreIsUploading_def Let_def

lemmas core_example_defs =
  idleCore_def quietStream_def failingStream_def healthyEnv_def noSerialEnv_def noClientEnv_def
  lateClientEnv_def failedUploadEnv_def resolves_def rejects_def rejectsLater_def

lemmas manager_defs =
  connect_def disconnect_def setConfig_def setState_def openSerial_def closeSerial_def
  createWsConnection_def handleWebSocketChanged_def handleError_def classify_def
  clearTimeout_def mergeConfig_def emit_def widgetsAttached_def isSerialConfig_def truthy_def
  backendCalls_def portAddress_def fireTimer_def Let_def

text \<open>
  The loop of \<^verbatim>\<open>setConfig\<close> in closed form: a key is overwritten when the new value
  differs from the stored one by \<^verbatim>\<open>!==\<close>, and the configuration has changed when one
  of the three does. A key that the new configuration leaves \<^verbatim>\<open>undefined\<close> becomes
  \<^verbatim>\<open>undefined\<close> in the stored one; a new object counts as a change even when its
  contents are those of the stored one.
\<close>

lemma mergeConfig_result:
  "mergeConfig newConfig c =
     (strictNotEqual (board newConfig) (board c) \<or> strictNotEqual (port newConfig) (port c) \<or>
        baudRate newConfig \<noteq> baudRate c,
      \<lparr>board = (if strictNotEqual (board newConfig) (board c) then board newConfig else board c),
       port = (if strictNotEqual (port newConfig) (port c) then port newConfig else port c),
       baudRate = baudRate newConfig\<rparr>)"
  by (cases c) (auto simp: mergeConfig_def)

lemma strictNotEqual_same: "\<not> strictNotEqual a a"
  by (cases a) simp_all

text \<open>
  The running example is what the manager reaches from its initial state: the configuration
  arrives, the backend advertises the relay endpoint, the monitor opens.
\<close>

lemma monitoring_reachable:
  "snd (openSerial obedientService Monitor
         (handleWebSocketChanged 5000 (setConfig obedientService config9600 initialWorld))) = monitoring"
  by (simp add: manager_defs double_defs example_defs)

lemma connect_calls:
  "backendCalls (trace (snd (connect E w))) =
     backendCalls (trace w) @
       (if \<not> isSerialPortOpen E (backend w) \<and> isSerialConfig (config w)
        then [BackendConnect (config w)] else [])"
  by (simp add: connect_def emit_def backendCalls_def split: prod.splits)

lemma disconnect_calls:
  "backendCalls (trace (snd (disconnect E w))) =
     backendCalls (trace w) @ (if isSerialPortOpen E (backend w) then [BackendDisconnect] else [])"
  by (simp add: disconnect_def emit_def backendCalls_def Let_def split: prod.splits)

lemma disconnect_backend:
  "backend (snd (disconnect E w)) =
     (if isSerialPortOpen E (backend w) then snd (serviceDisconnect E (backend w)) else backend w)"
  by (simp add: disconnect_def emit_def Let_def split: prod.splits)

lemma disconnect_config: "config (snd (disconnect E w)) = config w"
  by (simp add: disconnect_def emit_def Let_def split: prod.splits)

lemma connect_config: "config (snd (connect E w)) = config w"
  by (simp add: connect_def emit_def Let_def split: prod.splits)

lemma config_setConfig: "config (setConfig E newConfig w) = snd (mergeConfig newConfig (config w))"
  by (simp add: setConfig_def Let_def connect_config disconnect_config emit_def split: prod.splits)

lemma webSocket_connect: "webSocket (snd (connect E w)) = webSocket w"
  by (simp add: connect_def emit_def split: prod.splits)

lemma webSocket_disconnect: "webSocket (snd (disconnect E w)) = webSocket w"
  by (simp add: disconnect_def emit_def Let_def split: prod.splits)

lemma webSocket_setConfig: "webSocket (setConfig E newConfig w) = webSocket w"
  by (simp add: setConfig_def emit_def Let_def webSocket_connect webSocket_disconnect
      split: prod.splits)

lemma webSocket_handleError: "webSocket (handleError E error w) = webSocket w"
  by (simp add: handleError_def classify_def emit_def Let_def split: option.splits ErrorCode.splits)

lemma webSocket_setState: "webSocket (snd (setState E st w)) = webSocket w"
  using webSocket_connect [of E w] webSocket_disconnect [of E w]
  by (auto simp: setState_def emit_def Let_def split: prod.splits)

lemma state_setState_ok:
  "isOK (fst (setState E st w)) \<Longrightarrow> state (snd (setState E st w)) = st"
  by (auto simp: setState_def emit_def Let_def split: prod.splits if_splits)

lemma openSerial_socket:
  assumes "webSocket (snd (openSerial E t w)) \<noteq> webSocket w"
  shows "t = Monitor \<and> Monitor \<in> set (state (snd (openSerial E t w))) \<and>
         isOK (fst (openSerial E t w)) \<and> truthy (wsPort (snd (openSerial E t w))) \<and>
         webSocket (snd (openSerial E t w)) = wsPort (snd (openSerial E t w))"
proof -
  obtain st w1 where sw: "setState E (state w @ [t]) w = (st, w1)"
    by (cases "setState E (state w @ [t]) w")
  have ws1: "webSocket w1 = webSocket w"
    using webSocket_setState [of E "state w @ [t]" w] sw by simp
  have st1: "isOK st \<Longrightarrow> state w1 = state w @ [t]"
    using state_setState_ok [of E "state w @ [t]" w] sw by simp
  show ?thesis
    using assms ws1 st1
    by (auto simp: openSerial_def sw createWsConnection_def emit_def truthy_def
        split: if_splits option.splits)
qed

lemma closeSerial_monitor:
  assumes "Monitor \<in> set (state w)" and "isOK (fst (closeSerial E Monitor w))"
  shows "webSocket (snd (closeSerial E Monitor w)) = None"
  using assms by (auto simp: closeSerial_def emit_def split: prod.splits option.splits if_splits)

lemma closeSerial_other:
  "t \<noteq> Monitor \<Longrightarrow> webSocket (snd (closeSerial E t w)) = webSocket w"
  using webSocket_setState [of E "remove1 t (state w)" w]
  by (auto simp: closeSerial_def emit_def split: prod.splits option.splits if_splits)

section \<open>Reconfiguration: \<^verbatim>\<open>setConfig\<close>\<close>

text \<open>
  C1, as the claim states it, fails: a baud-rate change while the session is open, the monitor
  is attached and nothing is uploading leads to one backend disconnect, but the connect that
  follows is guarded by \<^verbatim>\<open>isSerialPortOpen()\<close> and \<^verbatim>\<open>isSerialConfig\<close>.
  With a backend that answers the disconnect with an error status and keeps the port open, no
  backend connect is issued; nor is one issued when the baud rate changes to
  \<^verbatim>\<open>undefined\<close>. In both cases the only backend call of \<^verbatim>\<open>setConfig\<close> is
  the disconnect (the first entry of the trace is the connect that opened the session).
\<close>

theorem setConfig_reconnect_counterexample:
  "isSerialPortOpen stuckService (backend monitoring) \<and> widgetsAttached (state monitoring) \<and>
   \<not> isUploading monitoring \<and> config monitoring = config9600 \<and>
   backendCalls (trace (setConfig stuckService config115200 monitoring)) =
     [BackendConnect config9600, BackendDisconnect] \<and>
   backendCalls (trace (setConfig obedientService (config9600\<lparr>baudRate := None\<rparr>) monitoring)) =
     [BackendConnect config9600, BackendDisconnect]"
  by (simp add: manager_defs double_defs example_defs)

text \<open>
  C1, amended. When the session is open, a consumer is attached, no upload is in progress and
  the update carries the stored board and port (the same objects, or \<^verbatim>\<open>undefined\<close>
  where nothing is stored) with a different baud rate, \<^verbatim>\<open>setConfig\<close> stores the new
  baud rate and leaves board and port as they were, issues exactly one backend disconnect and
  then, if the backend reports the port closed after it and the merged configuration is
  complete (the baud rate is neither missing nor 0), exactly one backend connect with the merged
  configuration, that is the stored board, the stored port and the new baud rate; otherwise no
  backend connect.
\<close>

theorem setConfig_baud_reconnects:
  assumes "isSerialPortOpen E (backend w)"
    and "widgetsAttached (state w)"
    and "\<not> isUploading w"
    and "\<not> strictNotEqual (board newConfig) (board (config w))"
    and "\<not> strictNotEqual (port newConfig) (port (config w))"
    and "baudRate newConfig \<noteq> baudRate (config w)"
  shows "config (setConfig E newConfig w) = (config w)\<lparr>baudRate := baudRate newConfig\<rparr> \<and>
         backendCalls (trace (setConfig E newConfig w)) =
           backendCalls (trace w) @ BackendDisconnect #
             (if \<not> isSerialPortOpen E (snd (serviceDisconnect E (backend w))) \<and>
                 isSerialConfig ((config w)\<lparr>baudRate := baudRate newConfig\<rparr>)
              then [BackendConnect ((config w)\<lparr>baudRate := baudRate newConfig\<rparr>)] else [])"
proof -
  let ?m = "(config w)\<lparr>baudRate := baudRate newConfig\<rparr>"
  have mc: "mergeConfig newConfig (config w) = (True, ?m)"
    using assms(4,5,6) by (cases "config w") (simp add: mergeConfig_result)
  let ?w2 = "emit (UpdateWsConfigParam (baudRate newConfig) (portAddress (port (config w))))
               (w\<lparr>config := ?m\<rparr>)"
  have sc: "setConfig E newConfig w = snd (connect E (snd (disconnect E ?w2)))"
    using assms(2,3) by (simp add: setConfig_def mc Let_def)
  have b2: "backend ?w2 = backend w" and c2: "config ?w2 = ?m"
    and t2: "backendCalls (trace ?w2) = backendCalls (trace w)"
    by (simp_all add: emit_def backendCalls_def)
  show ?thesis
    using assms(1) by (simp add: sc connect_calls disconnect_calls disconnect_backend
        disconnect_config connect_config b2 c2 t2)
qed

theorem setConfig_baud_reconnects_witness:
  "isSerialPortOpen obedientService (backend monitoring) \<and> widgetsAttached (state monitoring) \<and>
   \<not> isUploading monitoring \<and>
   \<not> strictNotEqual (board config115200) (board (config monitoring)) \<and>
   \<not> strictNotEqual (port config115200) (port (config monitoring)) \<and>
   baudRate config115200 \<noteq> baudRate (config monitoring) \<and>
   config (setConfig obedientService config115200 monitoring) = config115200 \<and>
   backendCalls (trace (setConfig obedientService config115200 monitoring)) =
     [BackendConnect config9600, BackendDisconnect, BackendConnect config115200]"
proof -
  have h: "isSerialPortOpen obedientService (backend monitoring)"
    "widgetsAttached (state monitoring)" "\<not> isUploading monitoring"
    "\<not> strictNotEqual (board config115200) (board (config monitoring))"
    "\<not> strictNotEqual (port config115200) (port (config monitoring))"
    "baudRate config115200 \<noteq> baudRate (config monitoring)"
    by (simp_all add: double_defs example_defs widgetsAttached_def)
  show ?thesis
    using h setConfig_baud_reconnects [OF h]
    by (simp add: double_defs example_defs isSerialConfig_def truthy_def backendCalls_def)
qed

text \<open>
  The comment of \<^verbatim>\<open>setConfig\<close> asks for only the properties that have changed. An
  update that carries the baud rate alone erases the stored board and port, and no
  reconnection follows the disconnect.
\<close>

lemma setConfig_omitted_keys:
  "config (setConfig obedientService baudOnly monitoring) = baudOnly \<and>
   backendCalls (trace (setConfig obedientService baudOnly monitoring)) =
     [BackendConnect config9600, BackendDisconnect]"
  by (simp add: manager_defs double_defs example_defs)

text \<open>
  An update whose board and port are new objects with the contents of the stored ones is a
  change: the new objects are stored, and the session is disconnected and connected again.
\<close>

lemma setConfig_new_objects:
  "contents unoAgain = contents unoObject \<and> contents ttyAgain = contents ttyObject \<and>
   baudRate config9600Again = baudRate (config monitoring) \<and>
   config (setConfig obedientService config9600Again monitoring) = config9600Again \<and>
   backendCalls (trace (setConfig obedientService config9600Again monitoring)) =
     [BackendConnect config9600, BackendDisconnect, BackendConnect config9600Again]"
  by (simp add: manager_defs double_defs example_defs)

section \<open>The relay socket\<close>

text \<open>
  C2, as the claim states it, fails: \<^verbatim>\<open>disconnect()\<close> clears the stored relay endpoint
  and never touches the socket. When the selected port goes away while the monitor is open,
  \<^verbatim>\<open>setConfig\<close> disconnects the backend, cannot reconnect, and the relay socket is
  still there with the session closed; the same holds after a plain \<^verbatim>\<open>disconnect()\<close>.
\<close>

theorem relay_socket_counterexample:
  "webSocket (setConfig obedientService unplugged monitoring) = Some 5000 \<and>
   \<not> isSerialPortOpen obedientService (backend (setConfig obedientService unplugged monitoring)) \<and>
   webSocket (snd (disconnect obedientService monitoring)) = Some 5000 \<and>
   \<not> isSerialPortOpen obedientService (backend (snd (disconnect obedientService monitoring)))"
  by (simp add: manager_defs double_defs example_defs)

text \<open>
  C2, amended. The relay socket changes only in \<^verbatim>\<open>openSerial\<close> and
  \<^verbatim>\<open>closeSerial\<close>. \<^verbatim>\<open>openSerial\<close> creates it only for the monitor, with an OK
  status, the monitor in the consumer set and a relay endpoint stored, and connects it to that
  endpoint. \<^verbatim>\<open>closeSerial(Monitor)\<close> of an attached monitor that returns an OK status
  leaves no socket; closing the plotter leaves the socket as it is. \<^verbatim>\<open>connect\<close>,
  \<^verbatim>\<open>disconnect\<close>, \<^verbatim>\<open>setConfig\<close> and \<^verbatim>\<open>handleError\<close> leave the socket
  as it is, also when they disconnect the backend session.
\<close>

theorem relay_socket_lifecycle:
  "(webSocket (snd (openSerial E t w)) \<noteq> webSocket w \<longrightarrow>
      t = Monitor \<and> Monitor \<in> set (state (snd (openSerial E t w))) \<and>
      isOK (fst (openSerial E t w)) \<and> truthy (wsPort (snd (openSerial E t w))) \<and>
      webSocket (snd (openSerial E t w)) = wsPort (snd (openSerial E t w))) \<and>
   (Monitor \<in> set (state w) \<and> isOK (fst (closeSerial E Monitor w)) \<longrightarrow>
      webSocket (snd (closeSerial E Monitor w)) = None) \<and>
   webSocket (snd (closeSerial E Plotter w)) = webSocket w \<and>
   webSocket (snd (connect E w)) = webSocket w \<and>
   webSocket (snd (disconnect E w)) = webSocket w \<and>
   webSocket (setConfig E newConfig w) = webSocket w \<and>
   webSocket (handleError E error w) = webSocket w"
proof -
  have "webSocket (snd (closeSerial E Plotter w)) = webSocket w"
    by (rule closeSerial_other) simp
  then show ?thesis
    using openSerial_socket [of E t w] closeSerial_monitor [of w E]
    by (auto simp: webSocket_connect webSocket_disconnect webSocket_setConfig
        webSocket_handleError)
qed

theorem relay_socket_lifecycle_witness:
  "webSocket (snd (openSerial obedientService Monitor (configured\<lparr>wsPort := Some 5000\<rparr>))) \<noteq>
     webSocket (configured\<lparr>wsPort := Some 5000\<rparr>) \<and>
   Monitor \<in> set (state (snd (openSerial obedientService Monitor (configured\<lparr>wsPort := Some 5000\<rparr>)))) \<and>
   webSocket (snd (openSerial obedientService Monitor (configured\<lparr>wsPort := Some 5000\<rparr>))) = Some 5000 \<and>
   Monitor \<in> set (state monitoring) \<and> isOK (fst (closeSerial obedientService Monitor monitoring)) \<and>
   webSocket (snd (closeSerial obedientService Monitor monitoring)) = None"
  using relay_socket_lifecycle [of obedientService Monitor "configured\<lparr>wsPort := Some 5000\<rparr>"]
    relay_socket_lifecycle [of obedientService Monitor monitoring]
  by (simp add: manager_defs double_defs example_defs)

section \<open>\<^verbatim>\<open>connect\<close>\<close>

text \<open>
  C3, as the claim states it, fails: two calls of \<^verbatim>\<open>connect()\<close> in a row need not end
  in AlreadyConnected. With an incomplete configuration both return NotConnected; when the
  backend refuses the first connect, the port is still closed and the second call issues a
  second backend connect.
\<close>

theorem connect_twice_counterexample:
  "fst (connect obedientService (snd (connect obedientService initialWorld))) = NOT_CONNECTED \<and>
   fst (connect refusingService (snd (connect refusingService configured))) = Coerced False \<and>
   trace (snd (connect refusingService (snd (connect refusingService configured)))) =
     [BackendConnect config9600, BackendConnect config9600]"
  by (simp add: manager_defs double_defs example_defs)

text \<open>
  C3, amended. If the session is open, \<^verbatim>\<open>connect()\<close> returns AlreadyConnected and
  changes nothing; so a \<^verbatim>\<open>connect()\<close> that follows a \<^verbatim>\<open>connect()\<close> which left
  the session open returns AlreadyConnected without a backend call. If no session is open and
  the configuration lacks the board, the port or a non-zero baud rate, it returns NotConnected
  and changes nothing. Otherwise it issues exactly one backend connect with the stored
  configuration, and its result is OK exactly when the status of that call is OK.
\<close>

theorem connect_contract:
  "(isSerialPortOpen E (backend w) \<longrightarrow> connect E w = (ALREADY_CONNECTED, w)) \<and>
   (\<not> isSerialPortOpen E (backend w) \<and> \<not> isSerialConfig (config w) \<longrightarrow>
      connect E w = (NOT_CONNECTED, w)) \<and>
   (\<not> isSerialPortOpen E (backend w) \<and> isSerialConfig (config w) \<longrightarrow>
      trace (snd (connect E w)) = trace w @ [BackendConnect (config w)] \<and>
      backend (snd (connect E w)) = snd (serviceConnect E (config w) (backend w)) \<and>
      isOK (fst (connect E w)) = isOK (fst (serviceConnect E (config w) (backend w)))) \<and>
   (isSerialPortOpen E (backend (snd (connect E w))) \<longrightarrow>
      connect E (snd (connect E w)) = (ALREADY_CONNECTED, snd (connect E w)))"
proof (cases "isSerialPortOpen E (backend w)")
  case True
  then have "connect E w = (ALREADY_CONNECTED, w)"
    by (simp add: connect_def)
  with True show ?thesis by simp
next
  case closed: False
  show ?thesis
  proof (cases "isSerialConfig (config w)")
    case False
    with closed have "connect E w = (NOT_CONNECTED, w)"
      by (simp add: connect_def)
    with closed False show ?thesis by simp
  next
    case True
    obtain connectStatus b where call: "serviceConnect E (config w) (backend w) = (connectStatus, b)"
      by (cases "serviceConnect E (config w) (backend w)")
    have one: "connect E w =
        (Coerced (isOK connectStatus), emit (BackendConnect (config w)) (w\<lparr>backend := b\<rparr>))"
      using closed True call by (simp add: connect_def)
    have again: "isSerialPortOpen E b \<Longrightarrow>
        connect E (emit (BackendConnect (config w)) (w\<lparr>backend := b\<rparr>)) =
          (ALREADY_CONNECTED, emit (BackendConnect (config w)) (w\<lparr>backend := b\<rparr>))"
      by (simp add: connect_def emit_def)
    show ?thesis
      using closed True again by (simp add: one call) (simp add: emit_def)
  qed
qed

theorem connect_contract_witness:
  "isSerialPortOpen obedientService (backend monitoring) \<and>
   connect obedientService monitoring = (ALREADY_CONNECTED, monitoring) \<and>
   \<not> isSerialPortOpen obedientService (backend initialWorld) \<and>
   \<not> isSerialConfig (config initialWorld) \<and>
   connect obedientService initialWorld = (NOT_CONNECTED, initialWorld) \<and>
   \<not> isSerialPortOpen obedientService (backend configured) \<and> isSerialConfig (config configured) \<and>
   trace (snd (connect obedientService configured)) = [BackendConnect config9600] \<and>
   isOK (fst (connect obedientService configured)) \<and>
   isSerialPortOpen obedientService (backend (snd (connect obedientService configured))) \<and>
   fst (connect obedientService (snd (connect obedientService configured))) = ALREADY_CONNECTED \<and>
   trace (snd (connect obedientService (snd (connect obedientService configured)))) =
     [BackendConnect config9600]"
  using connect_contract [of obedientService monitoring]
    connect_contract [of obedientService initialWorld]
    connect_contract [of obedientService configured]
  by (simp add: manager_defs double_defs example_defs)

text \<open>
  The value \<^verbatim>\<open>connect()\<close> returns after a backend call is the boolean
  \<^verbatim>\<open>Status.isOK(connectStatus)\<close>, not the status of the call:
  \<^verbatim>\<open>disconnect()\<close> returns the status itself.
\<close>

lemma connect_returns_coercion:
  "fst (connect refusingService configured) = Coerced False \<and>
   fst (serviceConnect refusingService (config configured) (backend configured)) =
     ErrorStatus ''Serial port busy'' \<and>
   fst (connect obedientService configured) = Coerced True"
  by (simp add: manager_defs double_defs example_defs)

section \<open>The error handler\<close>

lemma classify_frame:
  "state (classify error w) = state w" "backend (classify error w) = backend w"
  "timers (classify error w) = timers w" "reconnectTimeout (classify error w) = reconnectTimeout w"
  "nextTimer (classify error w) = nextTimer w"
  by (simp_all add: classify_def emit_def split: option.splits ErrorCode.splits)

lemma serialErrors_classify:
  "serialErrors (classify error w) =
     serialErrors w @ (if code error = Some DEVICE_BUSY then [error] else [])"
  by (simp add: classify_def emit_def split: option.splits ErrorCode.splits)

lemma handleError_retry:
  assumes "isSerialPortOpen E (backend w)" and "widgetsAttached (state w)"
    and "length (serialErrors (classify error w)) < 10"
  shows "timers (handleError E error w) =
           (case reconnectTimeout w of Some h \<Rightarrow> clearTimeout h (timers w) | None \<Rightarrow> timers w) @
           [(nextTimer w, max 1 (length (serialErrors (classify error w))) * 1000)]"
    and "reconnectTimeout (handleError E error w) = Some (nextTimer w)"
    and "nextTimer (handleError E error w) = Suc (nextTimer w)"
    and "serialErrors (handleError E error w) = serialErrors (classify error w)"
    and "state (handleError E error w) = state w"
    and "backend (handleError E error w) = backend w"
  using assms
  by (auto simp: handleError_def Let_def classify_frame emit_def max_def Suc_le_eq
      split: option.splits)

text \<open>
  Three busy errors in a row, from an empty history and with no timer pending: each one
  replaces the timer of the one before, and the third waits 3000 ms.
\<close>

lemma handleError_three_busy:
  assumes op: "isSerialPortOpen E (backend w)" and at: "widgetsAttached (state w)"
    and em: "serialErrors w = []" and nt: "reconnectTimeout w = None" and tm: "timers w = []"
    and c1: "code e1 = Some DEVICE_BUSY" and c2: "code e2 = Some DEVICE_BUSY"
    and c3: "code e3 = Some DEVICE_BUSY"
  shows "timers (handleError E e3 (handleError E e2 (handleError E e1 w))) =
           [(nextTimer w + 2, 3000)]"
proof -
  let ?w1 = "handleError E e1 w"
  let ?w2 = "handleError E e2 ?w1"
  have l1: "length (serialErrors (classify e1 w)) < 10"
    by (simp add: serialErrors_classify c1 em)
  note r1 = handleError_retry [OF op at l1]
  have s1: "serialErrors ?w1 = [e1]"
    by (simp add: r1(4) serialErrors_classify c1 em)
  have t1: "timers ?w1 = [(nextTimer w, 1000)]"
    by (simp add: r1(1) nt tm serialErrors_classify c1 em)
  have op1: "isSerialPortOpen E (backend ?w1)" and at1: "widgetsAttached (state ?w1)"
    by (simp_all add: r1 op at)
  have l2: "length (serialErrors (classify e2 ?w1)) < 10"
    by (simp add: serialErrors_classify c2 s1)
  note r2 = handleError_retry [OF op1 at1 l2]
  have s2: "serialErrors ?w2 = [e1, e2]"
    by (simp add: r2(4) serialErrors_classify c2 s1)
  have t2: "timers ?w2 = [(Suc (nextTimer w), 2000)]"
    by (simp add: r2(1) r1(2,3) t1 clearTimeout_def serialErrors_classify c2 s1)
  have op2: "isSerialPortOpen E (backend ?w2)" and at2: "widgetsAttached (state ?w2)"
    by (simp_all add: r2 op1 at1)
  have l3: "length (serialErrors (classify e3 ?w2)) < 10"
    by (simp add: serialErrors_classify c3 s2)
  note r3 = handleError_retry [OF op2 at2 l3]
  show ?thesis
    by (simp add: r3(1) r2(2,3) r1(3) t2 clearTimeout_def serialErrors_classify c3 s2)
qed

text \<open>
  When a pending timer expires, \<^verbatim>\<open>connect()\<close> runs once: the timer is gone, and the
  backend is asked to connect with the stored configuration if the port is closed by then and
  the configuration is complete, and not asked otherwise.
\<close>

lemma fireTimer_pending:
  assumes "h \<in> fst ` set (timers w)"
  shows "fireTimer E h w = snd (connect E (w\<lparr>timers := clearTimeout h (timers w)\<rparr>))"
    and "backendCalls (trace (fireTimer E h w)) =
           backendCalls (trace w) @
             (if \<not> isSerialPortOpen E (backend w) \<and> isSerialConfig (config w)
              then [BackendConnect (config w)] else [])"
    and "timers (fireTimer E h w) = clearTimeout h (timers w)"
proof -
  show run: "fireTimer E h w = snd (connect E (w\<lparr>timers := clearTimeout h (timers w)\<rparr>))"
    using assms by (simp add: fireTimer_def)
  show "backendCalls (trace (fireTimer E h w)) =
           backendCalls (trace w) @
             (if \<not> isSerialPortOpen E (backend w) \<and> isSerialConfig (config w)
              then [BackendConnect (config w)] else [])"
    by (simp add: run connect_calls)
  show "timers (fireTimer E h w) = clearTimeout h (timers w)"
    by (simp add: run connect_def emit_def split: prod.splits)
qed

lemma handleError_frame:
  "config (handleError E error w) = config w"
  "backendCalls (trace (handleError E error w)) = backendCalls (trace w)"
  by (simp_all add: handleError_def classify_def emit_def backendCalls_def Let_def
      split: option.splits ErrorCode.splits)

text \<open>
  C4. The handler processes an error only while the port is open (an error about a closed
  port is ignored). When it does, a consumer is attached and the error history, after the
  error has been classified, holds fewer than 10 entries, the timer stored in
  \<^verbatim>\<open>reconnectTimeout\<close> is cleared and one timer is set, with the delay
  \<open>max 1 n * 1000\<close> ms for the length \<open>n\<close> of the history; if no timer other than the
  stored one was pending, it is the only pending timer. The timer is a reconnect attempt: when
  it expires, \<^verbatim>\<open>connect()\<close> runs once and the timer is no longer pending; whatever
  state \<open>b\<close> the backend is in by then, the backend is asked to connect with the stored
  configuration if the port is closed and the configuration complete, and not asked
  otherwise. After three busy errors in a row the pending delay is 3000 ms.
\<close>

theorem handleError_schedules_reconnect:
  "(isSerialPortOpen E (backend w) \<and> widgetsAttached (state w) \<and>
    length (serialErrors (classify error w)) < 10 \<longrightarrow>
      timers (handleError E error w) =
        (case reconnectTimeout w of Some h \<Rightarrow> clearTimeout h (timers w) | None \<Rightarrow> timers w) @
        [(nextTimer w, max 1 (length (serialErrors (classify error w))) * 1000)] \<and>
      reconnectTimeout (handleError E error w) = Some (nextTimer w) \<and>
      (fst ` set (timers w) \<subseteq> set_option (reconnectTimeout w) \<longrightarrow>
         timers (handleError E error w) =
           [(nextTimer w, max 1 (length (serialErrors (classify error w))) * 1000)]) \<and>
      fireTimer E (nextTimer w) ((handleError E error w)\<lparr>backend := b\<rparr>) =
        snd (connect E ((handleError E error w)
               \<lparr>backend := b,
                timers := clearTimeout (nextTimer w) (timers (handleError E error w))\<rparr>)) \<and>
      backendCalls (trace (fireTimer E (nextTimer w) ((handleError E error w)\<lparr>backend := b\<rparr>))) =
        backendCalls (trace w) @
          (if \<not> isSerialPortOpen E b \<and> isSerialConfig (config w)
           then [BackendConnect (config w)] else []) \<and>
      nextTimer w \<notin>
        fst ` set (timers (fireTimer E (nextTimer w) ((handleError E error w)\<lparr>backend := b\<rparr>)))) \<and>
   (isSerialPortOpen E (backend w) \<and> widgetsAttached (state w) \<and> serialErrors w = [] \<and>
    reconnectTimeout w = None \<and> timers w = [] \<and> code e1 = Some DEVICE_BUSY \<and>
    code e2 = Some DEVICE_BUSY \<and> code e3 = Some DEVICE_BUSY \<longrightarrow>
      timers (handleError E e3 (handleError E e2 (handleError E e1 w))) =
        [(nextTimer w + 2, 3000)])"
proof -
  have only: "fst ` set ts \<subseteq> set_option r \<Longrightarrow>
      (case r of Some h \<Rightarrow> clearTimeout h ts | None \<Rightarrow> ts) = []"
    for ts :: "(nat \<times> nat) list" and r
    by (cases r) (auto simp: clearTimeout_def filter_empty_conv)
  let ?w1 = "handleError E error w"
  let ?w2 = "?w1\<lparr>backend := b\<rparr>"
  have fire: "fireTimer E (nextTimer w) ?w2 =
        snd (connect E (?w1\<lparr>backend := b, timers := clearTimeout (nextTimer w) (timers ?w1)\<rparr>)) \<and>
      backendCalls (trace (fireTimer E (nextTimer w) ?w2)) =
        backendCalls (trace w) @
          (if \<not> isSerialPortOpen E b \<and> isSerialConfig (config w)
           then [BackendConnect (config w)] else []) \<and>
      nextTimer w \<notin> fst ` set (timers (fireTimer E (nextTimer w) ?w2))"
    if hyp: "isSerialPortOpen E (backend w)" "widgetsAttached (state w)"
      "length (serialErrors (classify error w)) < 10"
  proof -
    have "nextTimer w \<in> fst ` set (timers ?w1)"
      by (simp add: handleError_retry(1) [OF hyp])
    then have pending: "nextTimer w \<in> fst ` set (timers ?w2)"
      by simp
    note f = fireTimer_pending [OF pending]
    have "nextTimer w \<notin> fst ` set (timers (fireTimer E (nextTimer w) ?w2))"
      by (auto simp: f(3) clearTimeout_def)
    then show ?thesis
      using f(1,2) by (simp add: handleError_frame)
  qed
  have single: "timers ?w1 = [(nextTimer w, max 1 (length (serialErrors (classify error w))) * 1000)]"
    if "isSerialPortOpen E (backend w)" "widgetsAttached (state w)"
      "length (serialErrors (classify error w)) < 10"
      "fst ` set (timers w) \<subseteq> set_option (reconnectTimeout w)"
    using handleError_retry(1) [OF that(1,2,3)] only [OF that(4)] by simp
  show ?thesis
    using handleError_retry(1,2) [of E w error] handleError_three_busy [of E w e1 e2 e3]
      single fire
    by blast
qed

theorem handleError_schedules_reconnect_witness:
  "isSerialPortOpen obedientService (backend monitoring) \<and> widgetsAttached (state monitoring) \<and>
   length (serialErrors (classify busyError monitoring)) < 10 \<and>
   fst ` set (timers monitoring) \<subseteq> set_option (reconnectTimeout monitoring) \<and>
   timers (handleError obedientService busyError monitoring) = [(0, 1000)] \<and>
   \<not> isSerialPortOpen obedientService False \<and> isSerialConfig (config monitoring) \<and>
   backendCalls (trace (fireTimer obedientService 0
       ((handleError obedientService busyError monitoring)\<lparr>backend := False\<rparr>))) =
     [BackendConnect config9600, BackendConnect config9600] \<and>
   timers (fireTimer obedientService 0
       ((handleError obedientService busyError monitoring)\<lparr>backend := False\<rparr>)) = [] \<and>
   serialErrors monitoring = [] \<and> reconnectTimeout monitoring = None \<and> timers monitoring = [] \<and>
   code busyError = Some DEVICE_BUSY \<and>
   timers (handleError obedientService busyError (handleError obedientService busyError
             (handleError obedientService busyError monitoring))) = [(2, 3000)]"
  using handleError_schedules_reconnect
    [of obedientService monitoring busyError False busyError busyError busyError]
  by (simp add: manager_defs double_defs example_defs)

text \<open>
  C5. When the handler processes an error (the port is open), a consumer is attached and the
  history, after the error has been classified, has reached 10 entries, it warns the user
  that reconnecting failed, empties the history and sets no timer: the pending timers and
  the stored handle are as before.
\<close>

theorem handleError_gives_up:
  assumes "isSerialPortOpen E (backend w)" and "widgetsAttached (state w)"
    and "length (serialErrors (classify error w)) \<ge> 10"
  shows "serialErrors (handleError E error w) = [] \<and>
         trace (handleError E error w) =
           trace (classify error w) @ [Notify Warn ''arduino/serial/failedReconnect''] \<and>
         timers (handleError E error w) = timers w \<and>
         reconnectTimeout (handleError E error w) = reconnectTimeout w \<and>
         nextTimer (handleError E error w) = nextTimer w"
  using assms by (simp add: handleError_def Let_def classify_frame emit_def)

theorem handleError_gives_up_witness:
  "isSerialPortOpen obedientService (backend nineErrors) \<and> widgetsAttached (state nineErrors) \<and>
   length (serialErrors (classify busyError nineErrors)) \<ge> 10 \<and>
   serialErrors (handleError obedientService busyError nineErrors) = [] \<and>
   timers (handleError obedientService busyError nineErrors) = [(8, 9000)]"
proof -
  have h: "isSerialPortOpen obedientService (backend nineErrors)"
    "widgetsAttached (state nineErrors)"
    "length (serialErrors (classify busyError nineErrors)) \<ge> 10"
    by (simp_all add: classify_def emit_def widgetsAttached_def double_defs example_defs)
  show ?thesis
    using h handleError_gives_up [OF h] by (simp add: nineErrors_def)
qed

section \<open>Propagation to the relay channel's configuration\<close>

lemma updates_connect: "wsConfigUpdates (trace (snd (connect E w))) = wsConfigUpdates (trace w)"
  by (simp add: connect_def emit_def wsConfigUpdates_def split: prod.splits)

lemma updates_disconnect:
  "wsConfigUpdates (trace (snd (disconnect E w))) = wsConfigUpdates (trace w)"
  by (simp add: disconnect_def emit_def wsConfigUpdates_def Let_def split: prod.splits)

text \<open>
  C6, as the claim states it, fails: the call of \<^verbatim>\<open>updateWsConfigParam\<close> is inside
  the guard of the reconnection. A change of the configuration with no consumer attached, or
  during an upload, leaves the trace as it was: nothing is propagated.
\<close>

theorem setConfig_propagation_counterexample:
  "baudRate config115200 \<noteq> baudRate (config configured) \<and>
   \<not> widgetsAttached (state configured) \<and>
   config (setConfig obedientService config115200 configured) = config115200 \<and>
   trace (setConfig obedientService config115200 configured) = [] \<and>
   baudRate config115200 \<noteq> baudRate (config uploadingWorld) \<and> isUploading uploadingWorld \<and>
   config (setConfig obedientService config115200 uploadingWorld) = config115200 \<and>
   trace (setConfig obedientService config115200 uploadingWorld) = trace uploadingWorld"
  by (simp add: manager_defs double_defs example_defs)

text \<open>
  C6, amended. \<^verbatim>\<open>setConfig\<close> propagates the current baud rate and port address, those
  of the configuration it has just stored, to the relay channel's shared configuration, once,
  exactly when a field changed (board or port is not the stored object, or the baud rate is
  not the stored number), a consumer is attached and no upload is in progress, that is when
  the disconnect and reconnect are triggered; in every other case it propagates nothing. The
  stored baud rate is the new one, the stored port is the new one if it is not the stored
  object.
\<close>

theorem setConfig_propagation:
  "wsConfigUpdates (trace (setConfig E newConfig w)) =
     wsConfigUpdates (trace w) @
       (if (strictNotEqual (board newConfig) (board (config w)) \<or>
            strictNotEqual (port newConfig) (port (config w)) \<or>
            baudRate newConfig \<noteq> baudRate (config w)) \<and>
           widgetsAttached (state w) \<and> \<not> isUploading w
        then [UpdateWsConfigParam (baudRate (config (setConfig E newConfig w)))
                (portAddress (port (config (setConfig E newConfig w))))]
        else []) \<and>
   baudRate (config (setConfig E newConfig w)) = baudRate newConfig \<and>
   port (config (setConfig E newConfig w)) =
     (if strictNotEqual (port newConfig) (port (config w)) then port newConfig
      else port (config w))"
proof -
  have stored: "baudRate (config (setConfig E newConfig w)) = baudRate newConfig"
    "port (config (setConfig E newConfig w)) =
       (if strictNotEqual (port newConfig) (port (config w)) then port newConfig
        else port (config w))"
    by (simp_all add: config_setConfig mergeConfig_result)
  have "wsConfigUpdates (trace (setConfig E newConfig w)) =
     wsConfigUpdates (trace w) @
       (if fst (mergeConfig newConfig (config w)) \<and> widgetsAttached (state w) \<and> \<not> isUploading w
        then [UpdateWsConfigParam (baudRate (snd (mergeConfig newConfig (config w))))
                (portAddress (port (snd (mergeConfig newConfig (config w)))))]
        else [])"
    by (simp add: setConfig_def Let_def updates_connect updates_disconnect split: prod.splits)
       (simp add: emit_def wsConfigUpdates_def)
  then show ?thesis
    using stored by (simp add: config_setConfig) (simp add: mergeConfig_result)
qed

theorem setConfig_propagation_witness:
  "wsConfigUpdates (trace (setConfig obedientService config115200 monitoring)) =
     [UpdateWsConfigParam (Some 115200) (Some ''/dev/ttyACM0'')] \<and>
   wsConfigUpdates (trace (setConfig obedientService config9600Again monitoring)) =
     [UpdateWsConfigParam (Some 9600) (Some ''/dev/ttyACM0'')] \<and>
   wsConfigUpdates (trace (setConfig obedientService config9600 monitoring)) = [] \<and>
   wsConfigUpdates (trace (setConfig obedientService config115200 configured)) = []"
  using setConfig_propagation [of obedientService config115200 monitoring]
    setConfig_propagation [of obedientService config9600Again monitoring]
    setConfig_propagation [of obedientService config9600 monitoring]
    setConfig_propagation [of obedientService config115200 configured]
  by (simp add: example_defs widgetsAttached_def wsConfigUpdates_def portAddress_def)

section \<open>Closing the last consumer\<close>

text \<open>
  C7, as the claim states it, fails: \<^verbatim>\<open>disconnect()\<close> clears the relay endpoint only
  when the backend answers with an OK status. With a backend that answers with an error
  status, closing the only consumer leaves the endpoint stored.
\<close>

theorem closeSerial_last_counterexample:
  "isSerialPortOpen stuckService (backend monitoring) \<and> state monitoring = [Monitor] \<and>
   wsPort (snd (closeSerial stuckService Monitor monitoring)) = Some 5000 \<and>
   state (snd (closeSerial stuckService Monitor monitoring)) = []"
  by (simp add: manager_defs double_defs example_defs)

text \<open>
  C7, amended. When the session is open and exactly one consumer is attached, closing that
  consumer issues exactly one backend disconnect and no backend connect, returns the status
  of the disconnect, empties the consumer set, and clears the stored relay endpoint if that
  status is OK; if it is not, the endpoint stays as it was.
\<close>

theorem closeSerial_last_consumer:
  assumes "isSerialPortOpen E (backend w)" and "state w = [t]"
  shows "backendCalls (trace (snd (closeSerial E t w))) =
           backendCalls (trace w) @ [BackendDisconnect] \<and>
         fst (closeSerial E t w) = fst (serviceDisconnect E (backend w)) \<and>
         state (snd (closeSerial E t w)) = [] \<and>
         wsPort (snd (closeSerial E t w)) =
           (if isOK (fst (serviceDisconnect E (backend w))) then None else wsPort w)"
  using assms
  by (auto simp: closeSerial_def setState_def disconnect_def widgetsAttached_def emit_def
      backendCalls_def Let_def split: prod.splits option.splits)

theorem closeSerial_last_consumer_witness:
  "isSerialPortOpen obedientService (backend monitoring) \<and> state monitoring = [Monitor] \<and>
   backendCalls (trace (snd (closeSerial obedientService Monitor monitoring))) =
     [BackendConnect config9600, BackendDisconnect] \<and>
   wsPort (snd (closeSerial obedientService Monitor monitoring)) = None"
proof -
  have h: "isSerialPortOpen obedientService (backend monitoring)" "state monitoring = [Monitor]"
    by (simp_all add: double_defs example_defs)
  show ?thesis
    using h closeSerial_last_consumer [OF h]
    by (simp add: double_defs example_defs backendCalls_def)
qed

section \<open>The error history\<close>

lemma serialErrors_connect: "serialErrors (snd (connect E w)) = serialErrors w"
  by (simp add: connect_def emit_def split: prod.splits)

lemma serialErrors_disconnect: "serialErrors (snd (disconnect E w)) = serialErrors w"
  by (simp add: disconnect_def emit_def Let_def split: prod.splits)

lemma serialErrors_setConfig: "serialErrors (setConfig E newConfig w) = serialErrors w"
  by (simp add: setConfig_def emit_def Let_def serialErrors_connect serialErrors_disconnect
      split: prod.splits)

text \<open>
  C8, as the claim states it, fails: no reconfiguration touches the history. After one busy
  error, a baud-rate change disconnects and reconnects with success, and the error is still
  in the history.
\<close>

theorem error_history_counterexample:
  "serialErrors erred = [busyError] \<and>
   config (setConfig obedientService config115200 erred) = config115200 \<and>
   isSerialPortOpen obedientService (backend (setConfig obedientService config115200 erred)) \<and>
   backendCalls (trace (setConfig obedientService config115200 erred)) =
     [BackendConnect config9600, BackendDisconnect, BackendConnect config115200] \<and>
   serialErrors (setConfig obedientService config115200 erred) = [busyError]"
  by (simp add: manager_defs double_defs example_defs)

text \<open>
  C8, amended. The error history is emptied by the error handler, when the port is open, a
  consumer is attached and the history, with the new error classified, has reached 10
  entries; in every other case the handler leaves the history as the classification made it
  (a busy error appended, nothing else changed). \<^verbatim>\<open>setConfig\<close>, \<^verbatim>\<open>connect\<close> and
  \<^verbatim>\<open>disconnect\<close> leave the history unchanged, whether the reconnection succeeds or not.
\<close>

theorem error_history_cleared:
  "serialErrors (setConfig E newConfig w) = serialErrors w \<and>
   serialErrors (snd (connect E w)) = serialErrors w \<and>
   serialErrors (snd (disconnect E w)) = serialErrors w \<and>
   serialErrors (handleError E error w) =
     (if \<not> isSerialPortOpen E (backend w) then serialErrors w
      else if widgetsAttached (state w) \<and> 10 \<le> length (serialErrors (classify error w)) then []
      else serialErrors (classify error w)) \<and>
   serialErrors (classify error w) =
     serialErrors w @ (if code error = Some DEVICE_BUSY then [error] else [])"
proof -
  have "serialErrors (handleError E error w) =
     (if \<not> isSerialPortOpen E (backend w) then serialErrors w
      else if widgetsAttached (state w) \<and> 10 \<le> length (serialErrors (classify error w)) then []
      else serialErrors (classify error w))"
    by (simp add: handleError_def Let_def classify_frame emit_def)
  then show ?thesis
    using serialErrors_classify [of error w]
    by (simp add: serialErrors_setConfig serialErrors_connect serialErrors_disconnect)
qed

theorem error_history_cleared_witness:
  "serialErrors (handleError obedientService busyError nineErrors) = [] \<and>
   serialErrors (handleError obedientService busyError erred) = [busyError, busyError] \<and>
   serialErrors (setConfig obedientService config115200 erred) = [busyError]"
  using error_history_cleared [of obedientService config115200 erred busyError]
    error_history_cleared [of obedientService config115200 nineErrors busyError]
  by (simp add: double_defs example_defs widgetsAttached_def)

section \<open>The plotter window\<close>

text \<open>
  C9. While the plotter contribution holds a window handle, its \<^verbatim>\<open>connect()\<close> focuses
  that window and returns: the handle stays, no window is opened, \<^verbatim>\<open>openSerial\<close> is
  not called, so the manager and the backend are as before.
\<close>

theorem plotterConnect_focuses:
  assumes "window pc = Some h"
  shows "plotterConnect E popup (pc, w) = (pc, w\<lparr>trace := trace w @ [WindowFocused h]\<rparr>) \<and>
         filter isWindowOpened (trace (snd (plotterConnect E popup (pc, w)))) =
           filter isWindowOpened (trace w) \<and>
         backendCalls (trace (snd (plotterConnect E popup (pc, w)))) = backendCalls (trace w) \<and>
         state (snd (plotterConnect E popup (pc, w))) = state w"
  using assms by (simp add: plotterConnect_def emit_def backendCalls_def)

theorem plotterConnect_focuses_witness:
  "window plotting = Some 7 \<and>
   plotterConnect obedientService (Some 8) (plotting, monitoring) =
     (plotting, monitoring\<lparr>trace := trace monitoring @ [WindowFocused 7]\<rparr>)"
proof -
  have h: "window plotting = Some 7" by (simp add: plotting_def)
  show ?thesis
    using h plotterConnect_focuses [OF h, of obedientService "Some 8" monitoring] by simp
qed

section \<open>The upload flags of the core service\<close>

lemma onData_flags:
  "uploading (onData cs c) = uploading c \<and> uploadInProgress (onData cs c) = uploadInProgress c"
  by (induction cs c rule: onData.induct) (simp_all add: appendToOutput_def)

lemma compile_flags:
  "uploading (snd (compile env c)) = uploading c \<and>
   uploadInProgress (snd (compile env c)) = uploadInProgress c"
  by (simp add: compile_def Let_def appendToOutput_def onData_flags split: option.splits)

text \<open>
  Once the \<^verbatim>\<open>try\<close> block is reached, the \<^verbatim>\<open>finally\<close> resets both flags,
  whether the stream ends or fails.
\<close>

lemma burnBootloader_resets:
  assumes "serialDisconnect env = None" and "awaitClient env 0 = None"
  shows "\<not> coreIsUploading (snd (burnBootloader env c)) \<and>
         \<not> uploadInProgress (snd (burnBootloader env c))"
  using assms
  by (simp add: burnBootloader_def coreIsUploading_def Let_def split: option.splits prod.splits)

lemma doUpload_resets:
  assumes "fst (compile env c) = Inr ()" and "serialDisconnect env = None"
    and "awaitClient env 1 = None"
  shows "\<not> coreIsUploading (snd (doUpload env task c)) \<and>
         \<not> uploadInProgress (snd (doUpload env task c))"
  using assms
  by (auto simp: doUpload_def coreIsUploading_def Let_def split: prod.splits sum.splits
      option.splits)

text \<open>When the compilation throws, \<^verbatim>\<open>doUpload\<close> throws with the flags untouched.\<close>

lemma doUpload_compile_fails:
  assumes "fst (compile env c) = Inl e"
  shows "fst (doUpload env task c) = Inl e \<and>
         uploading (snd (doUpload env task c)) = uploading c \<and>
         uploadInProgress (snd (doUpload env task c)) = uploadInProgress c"
  using assms compile_flags [of env c]
  by (auto simp: doUpload_def split: prod.splits sum.splits)

lemma upload_failed_resets:
  "fst (upload failedUploadEnv idleCore) = Inl ''exit status 1'' \<and>
   \<not> coreIsUploading (snd (upload failedUploadEnv idleCore)) \<and>
   \<not> uploadInProgress (snd (upload failedUploadEnv idleCore))"
  by (simp add: core_defs core_example_defs)

text \<open>
  C10 says that every completed call of \<^verbatim>\<open>upload\<close>, \<^verbatim>\<open>uploadUsingProgrammer\<close>
  or \<^verbatim>\<open>burnBootloader\<close>, resolved or thrown, leaves \<^verbatim>\<open>isUploading()\<close> and
  \<^verbatim>\<open>uploadInProgress\<close> false. The code sets both flags before the awaits that precede
  its \<^verbatim>\<open>try\<close> block: when \<^verbatim>\<open>this.coreClient()\<close> rejects,
  \<^verbatim>\<open>burnBootloader\<close> throws from outside the \<^verbatim>\<open>try\<close>, the
  \<^verbatim>\<open>finally\<close> never runs and both flags stay true.
\<close>

theorem burnBootloader_flags_stuck:
  "\<not> coreIsUploading idleCore \<and>
   fst (burnBootloader noClientEnv idleCore) = Inl ''client unavailable'' \<and>
   coreIsUploading (snd (burnBootloader noClientEnv idleCore)) \<and>
   uploadInProgress (snd (burnBootloader noClientEnv idleCore))"
  by (simp add: core_defs core_example_defs)

text \<open>
  The same happens in \<^verbatim>\<open>upload\<close> when \<^verbatim>\<open>serialService.disconnect()\<close> rejects
  after a compilation that succeeded.
\<close>

lemma upload_flags_stuck:
  "fst (upload noSerialEnv idleCore) = Inl ''rpc closed'' \<and>
   coreIsUploading (snd (upload noSerialEnv idleCore)) \<and>
   uploadInProgress (snd (upload noSerialEnv idleCore))"
  by (simp add: core_defs core_example_defs)

text \<open>
  It also happens when the core client, which the compilation obtained, is refused to
  \<^verbatim>\<open>doUpload\<close> itself.
\<close>

lemma upload_client_rejects_later:
  "fst (compile lateClientEnv idleCore) = Inr () \<and>
   fst (upload lateClientEnv idleCore) = Inl ''client unavailable'' \<and>
   coreIsUploading (snd (upload lateClientEnv idleCore)) \<and>
   uploadInProgress (snd (upload lateClientEnv idleCore))"
  by (simp add: core_defs core_example_defs)

end
